theory Spec2Isabelle
  imports Main
begin

section \<open>Exceptions and values\<close>

text \<open>
  Python exceptions are values: a call that can raise returns \<open>exn + 'a\<close>, with \<open>Inl\<close>
  the raised exception. \<open>ValueError\<close> and \<open>IntegrityError\<close> carry the text that
  \<open>str(e)\<close> gives, \<open>HTTPException\<close> its status code, detail and headers;
  \<open>PendingRollbackError\<close> is what a session answers after a failed flush, and
  \<open>OtherError\<close> stands for every other subclass of \<open>Exception\<close> of the database
  driver or of a collaborator. \<open>CancelledError\<close> (asyncio) derives from
  \<open>BaseException\<close> only: a clause \<open>except Exception\<close> does not catch it.
\<close>

datatype exn =
    ValueError string
  | IntegrityError string
  | MultipleResultsFound
  | NoResultFound
  | PendingRollbackError
  | HTTPException nat string "(string \<times> string) list"
  | OtherError string
  | CancelledError

text \<open>\<open>isinstance(e, Exception)\<close>.\<close>

fun is_Exception :: "exn \<Rightarrow> bool" where
  "is_Exception CancelledError = False"
| "is_Exception e = True"

type_synonym datetime = int

text \<open>
  The domain entity \<open>User\<close> and the persistence model \<open>UserModel\<close> have the same seven
  attributes in the source; the fields of the model carry the prefix \<open>model_\<close> here, and
  the entity's \<open>id\<close> is \<open>user_id\<close>. The value objects \<open>UserId\<close> and \<open>Email\<close> are the
  type parameters \<open>'uid\<close> and \<open>'em\<close>.
\<close>

record ('uid, 'em) User =
  user_id :: 'uid
  email :: 'em
  username :: string
  hashed_password :: string
  is_active :: bool
  created_at :: datetime
  updated_at :: datetime

record UserModel =
  model_id :: string
  model_email :: string
  model_username :: string
  model_hashed_password :: string
  model_is_active :: bool
  model_created_at :: datetime
  model_updated_at :: datetime

text \<open>
  The classes \<open>UserId\<close> and \<open>Email\<close> (domain/value_objects) are used by the repository
  but are not among the source files. Their constructors, which may reject a string, and
  their \<open>str\<close> conversions are parameters of the repository and the middleware.
\<close>

record ('uid, 'em) value_objects =
  UserId_new :: "string \<Rightarrow> exn + 'uid"
  UserId_str :: "'uid \<Rightarrow> string"
  Email_new :: "string \<Rightarrow> exn + 'em"
  Email_str :: "'em \<Rightarrow> string"

text \<open>\<open>str.lower()\<close> on ASCII text.\<close>

definition lower_char :: "char \<Rightarrow> char" where
  "lower_char c =
     (case map_of (zip ''ABCDEFGHIJKLMNOPQRSTUVWXYZ'' ''abcdefghijklmnopqrstuvwxyz'') c of
        Some l \<Rightarrow> l
      | None \<Rightarrow> c)"

definition lower :: "string \<Rightarrow> string" where
  "lower s = map lower_char s"

text \<open>
  Modelled from the spec: the value objects \<open>UserId\<close> and \<open>Email\<close>
  (domain/value_objects is not among the source files), section 3: the id is an opaque
  string; an email has a validated format and is case-normalized. An \<open>Email\<close> object
  exists only as its constructor builds it, so the type holds the normalized, valid
  strings; the constructor normalizes, validates (here: the text contains an at sign) and
  raises \<open>ValueError\<close> otherwise; \<open>str\<close> gives the text held.
\<close>

typedef Email = "{s :: string. s = lower s \<and> CHR ''@'' \<in> set s}"
  by (rule exI [of _ "''@''"]) (simp add: lower_def lower_char_def)

definition Email_init :: "string \<Rightarrow> exn + Email" where
  "Email_init s =
     (let n = lower s in
      if CHR ''@'' \<in> set n then Inr (Abs_Email n)
      else Inl (ValueError ''Invalid email format''))"

definition domain_objects :: "(string, Email) value_objects" where
  "domain_objects =
     \<lparr> UserId_new = Inr, UserId_str = (\<lambda>i. i),
       Email_new = Email_init, Email_str = Rep_Email \<rparr>"

section \<open>The database session\<close>

text \<open>
  An \<open>AsyncSession\<close> holds the committed content of the users table (\<open>db_rows\<close>), the
  content as the open transaction sees it (\<open>rows\<close>), the row the table stores for an
  inserted one (\<open>stored_as\<close>: column defaults and coercions of the database), what the
  session answers to the next statement, flush, commit, rollback and close (an
  exception, or \<open>None\<close> when the operation goes through), and the list of the
  session-level calls made so far.
\<close>

datatype session_call = Commit | Rollback | Close

record AsyncSession =
  db_rows :: "UserModel list"
  rows :: "UserModel list"
  stored_as :: "UserModel \<Rightarrow> UserModel"
  execute_exc :: "exn option"
  flush_exc :: "exn option"
  commit_exc :: "exn option"
  rollback_exc :: "exn option"
  close_exc :: "exn option"
  calls :: "session_call list"

text \<open>
  After a flush has failed the transaction is inactive: until a rollback, every
  statement, flush and commit raises \<open>PendingRollbackError\<close>.
\<close>

definition invalidate :: "AsyncSession \<Rightarrow> AsyncSession" where
  "invalidate s =
     s\<lparr> execute_exc := Some PendingRollbackError,
        flush_exc := Some PendingRollbackError,
        commit_exc := Some PendingRollbackError \<rparr>"

definition recover :: "exn option \<Rightarrow> exn option" where
  "recover x = (if x = Some PendingRollbackError then None else x)"

text \<open>\<open>session.execute(select(...).where(p))\<close>: the rows that satisfy \<open>p\<close>, in table order.\<close>

definition execute_select :: "AsyncSession \<Rightarrow> (UserModel \<Rightarrow> bool) \<Rightarrow> exn + UserModel list" where
  "execute_select s p =
     (case execute_exc s of
        Some e \<Rightarrow> Inl e
      | None \<Rightarrow> Inr (filter p (rows s)))"

fun scalar_one_or_none :: "'a list \<Rightarrow> exn + 'a option" where
  "scalar_one_or_none [] = Inr None"
| "scalar_one_or_none [x] = Inr (Some x)"
| "scalar_one_or_none (x # y # zs) = Inl MultipleResultsFound"

fun scalar_one :: "'a list \<Rightarrow> exn + 'a" where
  "scalar_one [] = Inl NoResultFound"
| "scalar_one [x] = Inr x"
| "scalar_one (x # y # zs) = Inl MultipleResultsFound"

section \<open>UserRepositoryImpl\<close>

definition model_to_entity ::
  "('uid, 'em) value_objects \<Rightarrow> UserModel \<Rightarrow> exn + ('uid, 'em) User" where
  "model_to_entity ops model =
     (case UserId_new ops (model_id model) of
        Inl e \<Rightarrow> Inl e
      | Inr i \<Rightarrow>
          (case Email_new ops (model_email model) of
             Inl e \<Rightarrow> Inl e
           | Inr em \<Rightarrow>
               Inr \<lparr> user_id = i,
                     email = em,
                     username = model_username model,
                     hashed_password = model_hashed_password model,
                     is_active = model_is_active model,
                     created_at = model_created_at model,
                     updated_at = model_updated_at model \<rparr>))"

definition entity_to_model ::
  "('uid, 'em) value_objects \<Rightarrow> ('uid, 'em) User \<Rightarrow> UserModel" where
  "entity_to_model ops entity =
     \<lparr> model_id = UserId_str ops (user_id entity),
       model_email = Email_str ops (email entity),
       model_username = username entity,
       model_hashed_password = hashed_password entity,
       model_is_active = is_active entity,
       model_created_at = created_at entity,
       model_updated_at = updated_at entity \<rparr>"

text \<open>\<open>model_to_entity(model) if model else None\<close>, after \<open>scalar_one_or_none\<close>.\<close>

definition entity_or_none ::
  "('uid, 'em) value_objects \<Rightarrow> exn + UserModel list \<Rightarrow> exn + ('uid, 'em) User option" where
  "entity_or_none ops result =
     (case result of
        Inl e \<Rightarrow> Inl e
      | Inr found \<Rightarrow>
          (case scalar_one_or_none found of
             Inl e \<Rightarrow> Inl e
           | Inr None \<Rightarrow> Inr None
           | Inr (Some model) \<Rightarrow>
               (case model_to_entity ops model of
                  Inl e \<Rightarrow> Inl e
                | Inr u \<Rightarrow> Inr (Some u))))"

definition get_by_id ::
  "('uid, 'em) value_objects \<Rightarrow> AsyncSession \<Rightarrow> 'uid \<Rightarrow> exn + ('uid, 'em) User option" where
  "get_by_id ops s uid =
     entity_or_none ops (execute_select s (\<lambda>m. model_id m = UserId_str ops uid))"

definition get_by_email ::
  "('uid, 'em) value_objects \<Rightarrow> AsyncSession \<Rightarrow> 'em \<Rightarrow> exn + ('uid, 'em) User option" where
  "get_by_email ops s em =
     entity_or_none ops (execute_select s (\<lambda>m. model_email m = Email_str ops em))"

definition get_by_username ::
  "('uid, 'em) value_objects \<Rightarrow> AsyncSession \<Rightarrow> string \<Rightarrow> exn + ('uid, 'em) User option" where
  "get_by_username ops s name =
     entity_or_none ops (execute_select s (\<lambda>m. model_username m = name))"

text \<open>
  \<open>select(UserModel.id).where(p)\<close> followed by \<open>scalar_one_or_none() is not None\<close>: the
  selected column is the primary key, a string, so a found row never gives \<open>None\<close>.
\<close>

definition id_is_not_none :: "exn + UserModel list \<Rightarrow> exn + bool" where
  "id_is_not_none result =
     (case result of
        Inl e \<Rightarrow> Inl e
      | Inr found \<Rightarrow>
          (case scalar_one_or_none (map model_id found) of
             Inl e \<Rightarrow> Inl e
           | Inr r \<Rightarrow> Inr (r \<noteq> None)))"

definition exists_by_email ::
  "('uid, 'em) value_objects \<Rightarrow> AsyncSession \<Rightarrow> 'em \<Rightarrow> exn + bool" where
  "exists_by_email ops s em =
     id_is_not_none (execute_select s (\<lambda>m. model_email m = Email_str ops em))"

definition exists_by_username :: "AsyncSession \<Rightarrow> string \<Rightarrow> exn + bool" where
  "exists_by_username s name =
     id_is_not_none (execute_select s (\<lambda>m. model_username m = name))"

text \<open>Python's \<open>needle in text\<close> on strings.\<close>

fun str_contains :: "string \<Rightarrow> string \<Rightarrow> bool" where
  "str_contains needle [] = (needle = [])"
| "str_contains needle (c # cs) =
     (take (length needle) (c # cs) = needle \<or> str_contains needle cs)"

text \<open>The two errors \<open>create\<close> raises for a duplicate, with the f-strings written out.\<close>

definition email_exists :: "('uid, 'em) value_objects \<Rightarrow> ('uid, 'em) User \<Rightarrow> exn" where
  "email_exists ops user =
     ValueError (''User with email '' @ Email_str ops (email user) @ '' already exists'')"

definition username_exists :: "('uid, 'em) User \<Rightarrow> exn" where
  "username_exists user =
     ValueError (''User with username '' @ username user @ '' already exists'')"

text \<open>The clause \<open>except IntegrityError as e\<close> of \<open>create\<close>; any other exception passes.\<close>

definition create_except ::
  "('uid, 'em) value_objects \<Rightarrow> ('uid, 'em) User \<Rightarrow> exn \<Rightarrow> exn" where
  "create_except ops user e =
     (case e of
        IntegrityError msg \<Rightarrow>
          (if str_contains ''email'' msg then email_exists ops user
           else if str_contains ''username'' msg then username_exists user
           else e)
      | _ \<Rightarrow> e)"

text \<open>
  \<open>session.refresh(model)\<close>: a statement that reads the row of the model's primary key
  back; it fails when there is no such row.
\<close>

definition refresh :: "AsyncSession \<Rightarrow> UserModel \<Rightarrow> exn + UserModel" where
  "refresh s model =
     (case execute_exc s of
        Some e \<Rightarrow> Inl e
      | None \<Rightarrow>
          (case filter (\<lambda>m. model_id m = model_id model) (rows s) of
             [] \<Rightarrow> Inl (OtherError ''InvalidRequestError'')
           | r # rs \<Rightarrow> Inr (last (r # rs))))"

text \<open>
  \<open>create\<close>: the model is added, then \<open>flush\<close> sends the INSERT, \<open>refresh\<close> reads the
  stored row back, and that row is converted. All three are inside the \<open>try\<close>. A
  failed flush inserts nothing and leaves the session's transaction inactive.
\<close>

definition create ::
  "('uid, 'em) value_objects \<Rightarrow> AsyncSession \<Rightarrow> ('uid, 'em) User
     \<Rightarrow> AsyncSession \<times> (exn + ('uid, 'em) User)" where
  "create ops s user =
     (let model = entity_to_model ops user in
      case flush_exc s of
        Some e \<Rightarrow> (invalidate s, Inl (create_except ops user e))
      | None \<Rightarrow>
          (let s' = s\<lparr>rows := rows s @ [stored_as s model]\<rparr> in
           case refresh s' model of
             Inl e \<Rightarrow> (s', Inl (create_except ops user e))
           | Inr reloaded \<Rightarrow>
               (case model_to_entity ops reloaded of
                  Inl e \<Rightarrow> (s', Inl (create_except ops user e))
                | Inr created \<Rightarrow> (s', Inr created))))"

text \<open>
  \<open>update\<close>: one UPDATE statement on the rows whose id is \<open>str(user.id)\<close>, setting five
  columns and returning the updated rows; \<open>scalar_one\<close> then wants exactly one. A
  statement the database refuses changes nothing.
\<close>

definition update_values ::
  "('uid, 'em) value_objects \<Rightarrow> ('uid, 'em) User \<Rightarrow> UserModel \<Rightarrow> UserModel" where
  "update_values ops user m =
     m\<lparr> model_email := Email_str ops (email user),
        model_username := username user,
        model_hashed_password := hashed_password user,
        model_is_active := is_active user,
        model_updated_at := updated_at user \<rparr>"

definition update ::
  "('uid, 'em) value_objects \<Rightarrow> AsyncSession \<Rightarrow> ('uid, 'em) User
     \<Rightarrow> AsyncSession \<times> (exn + ('uid, 'em) User)" where
  "update ops s user =
     (case execute_exc s of
        Some e \<Rightarrow> (s, Inl e)
      | None \<Rightarrow>
          (let hit = (\<lambda>m. model_id m = UserId_str ops (user_id user));
               rows' = map (\<lambda>m. if hit m then update_values ops user m else m) (rows s);
               returned = filter hit rows'
           in (s\<lparr>rows := rows'\<rparr>,
               case scalar_one returned of
                 Inl e \<Rightarrow> Inl e
               | Inr model \<Rightarrow> model_to_entity ops model)))"

section \<open>The session dependency\<close>

text \<open>
  \<open>commit\<close> makes the transaction's rows the committed ones; \<open>rollback\<close> discards them
  and makes the transaction active again; \<open>close\<close> ends the session and discards what
  is not committed. Each of the three can raise, and each call is recorded.
\<close>

definition commit :: "AsyncSession \<Rightarrow> AsyncSession \<times> exn option" where
  "commit s =
     (case commit_exc s of
        None \<Rightarrow> (s\<lparr>db_rows := rows s, calls := calls s @ [Commit]\<rparr>, None)
      | Some e \<Rightarrow> (s\<lparr>calls := calls s @ [Commit]\<rparr>, Some e))"

definition rollback :: "AsyncSession \<Rightarrow> AsyncSession \<times> exn option" where
  "rollback s =
     (case rollback_exc s of
        None \<Rightarrow>
          (s\<lparr> rows := db_rows s,
              execute_exc := recover (execute_exc s),
              flush_exc := recover (flush_exc s),
              commit_exc := recover (commit_exc s),
              calls := calls s @ [Rollback] \<rparr>, None)
      | Some e \<Rightarrow> (s\<lparr>calls := calls s @ [Rollback]\<rparr>, Some e))"

definition close :: "AsyncSession \<Rightarrow> AsyncSession \<times> exn option" where
  "close s =
     (case close_exc s of
        None \<Rightarrow> (s\<lparr>rows := db_rows s, calls := calls s @ [Close]\<rparr>, None)
      | Some e \<Rightarrow> (s\<lparr>calls := calls s @ [Close]\<rparr>, Some e))"

text \<open>
  The \<open>try\<close> of \<open>get_session\<close> after the \<open>yield\<close>: \<open>raised\<close> is the exception the
  request threw into the generator, if any. Without one the session is committed. The
  clause \<open>except Exception\<close> takes an exception of the request or of the commit, rolls
  back and re-raises; an exception of the rollback takes the place of the first. The
  second component is the exception in flight afterwards.
\<close>

definition except_rollback :: "AsyncSession \<Rightarrow> exn \<Rightarrow> AsyncSession \<times> exn option" where
  "except_rollback s e =
     (if is_Exception e then
        (case rollback s of
           (s', None) \<Rightarrow> (s', Some e)
         | (s', Some e') \<Rightarrow> (s', Some e'))
      else (s, Some e))"

definition try_commit :: "AsyncSession \<Rightarrow> exn option \<Rightarrow> AsyncSession \<times> exn option" where
  "try_commit s raised =
     (case raised of
        None \<Rightarrow>
          (case commit s of
             (s', None) \<Rightarrow> (s', None)
           | (s', Some e) \<Rightarrow> except_rollback s' e)
      | Some e \<Rightarrow> except_rollback s e)"

text \<open>
  \<open>await session.close()\<close> with an exception possibly in flight, as in a \<open>finally\<close>
  clause and in the exit of \<open>async with\<close>: an exception of the close takes the place
  of the one in flight.
\<close>

definition close_in_flight :: "AsyncSession \<times> exn option \<Rightarrow> AsyncSession \<times> exn option" where
  "close_in_flight state =
     (case close (fst state) of
        (s', None) \<Rightarrow> (s', snd state)
      | (s', Some e) \<Rightarrow> (s', Some e))"

text \<open>
  \<open>get_session\<close> yields the session to the request; \<open>body\<close> is everything that runs
  between the \<open>yield\<close> and the generator's resumption: it gives the session as the
  request leaves it and the exception the request raised, if any. The request reaches
  the session through the repository, which adds, flushes and executes but never
  commits, rolls back or closes: the committed rows and the recorded calls are those
  from before the request. The session is closed by the \<open>finally\<close> clause and again
  by the exit of \<open>async with\<close>. The second component of the result is the exception
  that leaves \<open>get_session\<close>.
\<close>

definition get_session ::
  "AsyncSession \<Rightarrow> (AsyncSession \<Rightarrow> AsyncSession \<times> exn option)
     \<Rightarrow> AsyncSession \<times> exn option" where
  "get_session s body =
     (case body s of
        (s1, raised) \<Rightarrow>
          close_in_flight
            (close_in_flight
               (try_commit (s1\<lparr>db_rows := db_rows s, calls := calls s\<rparr>) raised)))"

section \<open>Identity middleware\<close>

record HTTPAuthorizationCredentials =
  scheme :: string
  credentials :: string

text \<open>
  \<open>jwt_service.get_user_id_from_token\<close> (infrastructure/auth) is not among the source
  files: it is the parameter \<open>jwt\<close>, which returns a user id, returns \<open>None\<close> or raises.
  A \<open>UserId\<close>, a \<open>User\<close> and a credentials object are truthy, so \<open>not x\<close> on an
  optional one of them is \<open>x is None\<close>.
\<close>

text \<open>
  \<open>security = HTTPBearer()\<close>: the class belongs to the framework (fastapi.security),
  the module instantiates it with its defaults, so \<open>auto_error\<close> is on. Its call reads
  the header \<open>Authorization\<close> of the request, splits it at the first space, and either
  returns the credentials or, with \<open>auto_error\<close>, raises; without \<open>auto_error\<close> it
  returns \<open>None\<close>.
\<close>

record HTTPBearer =
  auto_error :: bool

definition security :: HTTPBearer where
  "security = \<lparr> auto_error = True \<rparr>"

definition get_authorization_scheme_param :: "string option \<Rightarrow> string \<times> string" where
  "get_authorization_scheme_param authorization =
     (case authorization of
        None \<Rightarrow> ([], [])
      | Some v \<Rightarrow>
          (if v = [] then ([], [])
           else (takeWhile (\<lambda>c. c \<noteq> CHR '' '') v,
                 drop 1 (dropWhile (\<lambda>c. c \<noteq> CHR '' '') v))))"

definition HTTPBearer_call ::
  "HTTPBearer \<Rightarrow> string option \<Rightarrow> exn + HTTPAuthorizationCredentials option" where
  "HTTPBearer_call self authorization =
     (case get_authorization_scheme_param authorization of
        (sch, cred) \<Rightarrow>
          (if authorization = None \<or> authorization = Some [] \<or> sch = [] \<or> cred = [] then
             (if auto_error self
              then Inl (HTTPException 403 ''Not authenticated'' [])
              else Inr None)
           else if lower sch \<noteq> ''bearer'' then
             (if auto_error self
              then Inl (HTTPException 403 ''Invalid authentication credentials'' [])
              else Inr None)
           else Inr (Some \<lparr> scheme = sch, credentials = cred \<rparr>)))"

definition unauthorized :: "string \<Rightarrow> exn" where
  "unauthorized detail = HTTPException 401 detail [(''WWW-Authenticate'', ''Bearer'')]"

text \<open>The body of the \<open>try\<close> of \<open>get_current_user_optional\<close>.\<close>

definition optional_try ::
  "(string \<Rightarrow> exn + 'uid option) \<Rightarrow> ('uid, 'em) value_objects \<Rightarrow> AsyncSession
     \<Rightarrow> HTTPAuthorizationCredentials \<Rightarrow> exn + ('uid, 'em) User option" where
  "optional_try jwt ops s c =
     (case jwt (credentials c) of
        Inl e \<Rightarrow> Inl e
      | Inr None \<Rightarrow> Inr None
      | Inr (Some uid) \<Rightarrow>
          (case get_by_id ops s uid of
             Inl e \<Rightarrow> Inl e
           | Inr None \<Rightarrow> Inr None
           | Inr (Some user) \<Rightarrow>
               (if \<not> is_active user then Inr None else Inr (Some user))))"

definition get_current_user_optional ::
  "(string \<Rightarrow> exn + 'uid option) \<Rightarrow> ('uid, 'em) value_objects \<Rightarrow> AsyncSession
     \<Rightarrow> HTTPAuthorizationCredentials option \<Rightarrow> exn + ('uid, 'em) User option" where
  "get_current_user_optional jwt ops s creds =
     (case creds of
        None \<Rightarrow> Inr None
      | Some c \<Rightarrow>
          (case optional_try jwt ops s c of
             Inl e \<Rightarrow> (if is_Exception e then Inr None else Inl e)
           | Inr r \<Rightarrow> Inr r))"

text \<open>
  \<open>credentials = Depends(security)\<close>: the framework calls \<open>security\<close> on the request
  first and hands its result to \<open>get_current_user_optional\<close>; an exception of
  \<open>security\<close> ends the request before the function runs.
\<close>

definition optional_user_dependency ::
  "(string \<Rightarrow> exn + 'uid option) \<Rightarrow> ('uid, 'em) value_objects \<Rightarrow> AsyncSession
     \<Rightarrow> string option \<Rightarrow> exn + ('uid, 'em) User option" where
  "optional_user_dependency jwt ops s authorization =
     (case HTTPBearer_call security authorization of
        Inl e \<Rightarrow> Inl e
      | Inr creds \<Rightarrow> get_current_user_optional jwt ops s creds)"

definition get_current_user ::
  "(string \<Rightarrow> exn + 'uid option) \<Rightarrow> ('uid, 'em) value_objects \<Rightarrow> AsyncSession
     \<Rightarrow> HTTPAuthorizationCredentials option \<Rightarrow> exn + ('uid, 'em) User" where
  "get_current_user jwt ops s creds =
     (case creds of
        None \<Rightarrow> Inl (unauthorized ''Not authenticated'')
      | Some c \<Rightarrow>
          (case jwt (credentials c) of
             Inl e \<Rightarrow> Inl e
           | Inr None \<Rightarrow> Inl (unauthorized ''Invalid authentication credentials'')
           | Inr (Some uid) \<Rightarrow>
               (case get_by_id ops s uid of
                  Inl e \<Rightarrow> Inl e
                | Inr None \<Rightarrow> Inl (unauthorized ''User not found or inactive'')
                | Inr (Some user) \<Rightarrow>
                    (if \<not> is_active user
                     then Inl (unauthorized ''User not found or inactive'')
                     else Inr user))))"

definition get_current_active_user :: "('uid, 'em) User \<Rightarrow> exn + ('uid, 'em) User" where
  "get_current_active_user current_user =
     (if \<not> is_active current_user
      then Inl (HTTPException 400 ''Inactive user'' [])
      else Inr current_user)"

text \<open>
  \<open>Depends(get_current_user)\<close>: the framework runs \<open>get_current_user\<close> first and hands
  its result to \<open>get_current_active_user\<close>; an exception of the former ends the request.
\<close>

definition current_active_user_dependency ::
  "(string \<Rightarrow> exn + 'uid option) \<Rightarrow> ('uid, 'em) value_objects \<Rightarrow> AsyncSession
     \<Rightarrow> HTTPAuthorizationCredentials option \<Rightarrow> exn + ('uid, 'em) User" where
  "current_active_user_dependency jwt ops s creds =
     (case get_current_user jwt ops s creds of
        Inl e \<Rightarrow> Inl e
      | Inr current_user \<Rightarrow> get_current_active_user current_user)"

section \<open>Authentication router\<close>

text \<open>
  \<open>UserResponseDTO\<close> as the endpoint \<open>/me\<close> builds it: six keyword arguments. The
  dictionary a use case returns has the keys \<open>user\<close> and \<open>tokens\<close>; the response of
  \<open>sign_up\<close> and \<open>login\<close> adds \<open>message\<close>.
\<close>

record UserResponseDTO =
  dto_id :: string
  dto_email :: string
  dto_username :: string
  dto_is_active :: bool
  dto_created_at :: datetime
  dto_updated_at :: datetime

record ('u, 't) auth_result =
  result_user :: 'u
  result_tokens :: 't

record ('u, 't) auth_response =
  message :: string
  response_user :: 'u
  response_tokens :: 't

text \<open>
  The use-case object is injected into the endpoints; \<open>register_user\<close> and
  \<open>login_user\<close> are what its methods do on the request's data: return a result or
  raise.
\<close>

definition sign_up ::
  "('d \<Rightarrow> exn + ('u, 't) auth_result) \<Rightarrow> 'd \<Rightarrow> exn + ('u, 't) auth_response" where
  "sign_up register_user user_data =
     (case register_user user_data of
        Inr result \<Rightarrow>
          Inr \<lparr> message = ''User registered successfully'',
                response_user = result_user result,
                response_tokens = result_tokens result \<rparr>
      | Inl e \<Rightarrow>
          (case e of
             ValueError msg \<Rightarrow> Inl (HTTPException 400 msg [])
           | _ \<Rightarrow>
               (if is_Exception e
                then Inl (HTTPException 500 ''Internal server error during registration'' [])
                else Inl e)))"

definition login ::
  "('d \<Rightarrow> exn + ('u, 't) auth_result) \<Rightarrow> 'd \<Rightarrow> exn + ('u, 't) auth_response" where
  "login login_user login_data =
     (case login_user login_data of
        Inr result \<Rightarrow>
          Inr \<lparr> message = ''Login successful'',
                response_user = result_user result,
                response_tokens = result_tokens result \<rparr>
      | Inl e \<Rightarrow>
          (case e of
             ValueError msg \<Rightarrow> Inl (HTTPException 401 msg [])
           | _ \<Rightarrow>
               (if is_Exception e
                then Inl (HTTPException 500 ''Internal server error during login'' [])
                else Inl e)))"

definition get_current_user_info ::
  "('uid, 'em) value_objects \<Rightarrow> ('uid, 'em) User \<Rightarrow> UserResponseDTO" where
  "get_current_user_info ops current_user =
     \<lparr> dto_id = UserId_str ops (user_id current_user),
       dto_email = Email_str ops (email current_user),
       dto_username = username current_user,
       dto_is_active = is_active current_user,
       dto_created_at = created_at current_user,
       dto_updated_at = updated_at current_user \<rparr>"

section \<open>Authentication use cases\<close>

text \<open>
  The password service and the token service that the use cases call are not among the
  source files; they are parameters.
\<close>

record ('uid, 'tok) auth_services =
  verify_password :: "string \<Rightarrow> string \<Rightarrow> bool"
  create_token_pair :: "'uid \<Rightarrow> 'tok"

record UserLoginDTO =
  login_identifier :: string
  login_password :: string

text \<open>
  Modelled from the spec: the error \<open>InvalidCredentials\<close> and
  \<open>AuthUseCases.login_user\<close> (application/use_cases/auth_use_cases.py is not among the
  source files), section 4.3: the user is looked up by the identifier, and the login
  fails with the one generic \<open>InvalidCredentials\<close> if there is none, if the user is
  inactive, or if the password does not verify. The lookup by email or username is the
  parameter \<open>lookup\<close>. The endpoint answers 401 to a \<open>ValueError\<close> only, so the error is
  one.
\<close>

definition InvalidCredentials :: exn where
  "InvalidCredentials = ValueError ''Invalid credentials''"

definition login_user ::
  "('uid, 'em) value_objects \<Rightarrow> ('uid, 'tok) auth_services
     \<Rightarrow> (string \<Rightarrow> exn + ('uid, 'em) User option) \<Rightarrow> UserLoginDTO
     \<Rightarrow> exn + (UserResponseDTO, 'tok) auth_result" where
  "login_user ops svc lookup login_data =
     (case lookup (login_identifier login_data) of
        Inl e \<Rightarrow> Inl e
      | Inr None \<Rightarrow> Inl InvalidCredentials
      | Inr (Some user) \<Rightarrow>
          (if \<not> is_active user then Inl InvalidCredentials
           else if \<not> verify_password svc (login_password login_data) (hashed_password user)
           then Inl InvalidCredentials
           else Inr \<lparr> result_user = get_current_user_info ops user,
                      result_tokens = create_token_pair svc (user_id user) \<rparr>))"

section \<open>Example values\<close>

text \<open>Value objects that keep the string they are built from.\<close>

definition plain_objects :: "(string, string) value_objects" where
  "plain_objects =
     \<lparr> UserId_new = Inr, UserId_str = (\<lambda>i. i), Email_new = Inr, Email_str = (\<lambda>e. e) \<rparr>"

definition alice :: "(string, string) User" where
  "alice = \<lparr> user_id = ''u1'', email = ''a@x.com'', username = ''alice'',
             hashed_password = ''hash:secret1'', is_active = True,
             created_at = 100, updated_at = 100 \<rparr>"

definition bob :: "(string, string) User" where
  "bob = \<lparr> user_id = ''u2'', email = ''b@x.com'', username = ''bob'',
           hashed_password = ''hash:secret2'', is_active = False,
           created_at = 200, updated_at = 200 \<rparr>"

definition users_table :: "UserModel list" where
  "users_table = [entity_to_model plain_objects alice, entity_to_model plain_objects bob]"

definition healthy_session :: AsyncSession where
  "healthy_session =
     \<lparr> db_rows = users_table, rows = users_table, stored_as = (\<lambda>m. m),
       execute_exc = None, flush_exc = None, commit_exc = None,
       rollback_exc = None, close_exc = None, calls = [] \<rparr>"

text \<open>A token service that knows three tokens: alice's, bob's and one it chokes on.\<close>

definition demo_jwt :: "string \<Rightarrow> exn + string option" where
  "demo_jwt token =
     (if token = ''token-u1'' then Inr (Some ''u1'')
      else if token = ''token-u2'' then Inr (Some ''u2'')
      else if token = ''token-broken'' then Inl (OtherError ''decode'')
      else Inr None)"

definition bearer :: "string \<Rightarrow> HTTPAuthorizationCredentials option" where
  "bearer token = Some \<lparr> scheme = ''Bearer'', credentials = token \<rparr>"


text \<open>A request that runs one repository operation: the session it leaves, what it raised.\<close>

definition request_of ::
  "(AsyncSession \<Rightarrow> AsyncSession \<times> (exn + 'a)) \<Rightarrow> AsyncSession
     \<Rightarrow> AsyncSession \<times> exn option" where
  "request_of operation s =
     (case operation s of
        (s', Inl e) \<Rightarrow> (s', Some e)
      | (s', Inr r) \<Rightarrow> (s', None))"

definition carol :: "(string, string) User" where
  "carol = \<lparr> user_id = ''u3'', email = ''c@x.com'', username = ''carol'',
             hashed_password = ''hash:secret3'', is_active = True,
             created_at = 300, updated_at = 300 \<rparr>"

text \<open>A request that inserts carol and is then rejected by its handler.\<close>

definition create_then_fail ::
  "AsyncSession \<Rightarrow> AsyncSession \<times> (exn + (string, string) User)" where
  "create_then_fail s =
     (case create plain_objects s carol of
        (s', Inl e) \<Rightarrow> (s', Inl e)
      | (s', Inr created) \<Rightarrow> (s', Inl (HTTPException 400 ''rejected'' [])))"

definition demo_services :: "(string, string) auth_services" where
  "demo_services =
     \<lparr> verify_password = (\<lambda>p h. h = ''hash:'' @ p),
       create_token_pair = (\<lambda>i. ''token-'' @ i) \<rparr>"

text \<open>A request that inserts carol and is cancelled while it awaits.\<close>

definition create_then_cancelled ::
  "AsyncSession \<Rightarrow> AsyncSession \<times> (exn + (string, string) User)" where
  "create_then_cancelled s =
     (case create plain_objects s carol of
        (s', Inl e) \<Rightarrow> (s', Inl e)
      | (s', Inr created) \<Rightarrow> (s', Inl CancelledError))"

text \<open>
  \<open>str(e)\<close> of an \<open>IntegrityError\<close> of SQLAlchemy at the flush of \<open>create\<close>: the
  message of the driver, then the statement. The INSERT lists the seven columns that
  \<open>entity_to_model\<close> fills; the table name comes from the model class, which is not
  among the source files.
\<close>

definition insert_statement :: string where
  "insert_statement =
     ''INSERT INTO users (id, email, username, hashed_password, is_active, created_at, updated_at) VALUES (?, ?, ?, ?, ?, ?, ?)''"

definition integrity_error :: "string \<Rightarrow> exn" where
  "integrity_error driver_message =
     IntegrityError (driver_message @ '' [SQL: '' @ insert_statement @ '']'')"

text \<open>
  A session in which another request has taken carol's username since the pre-check:
  the flush is refused for the unique constraint on the username.
\<close>

definition username_taken_session :: AsyncSession where
  "username_taken_session =
     healthy_session\<lparr>flush_exc := Some (integrity_error
        ''duplicate key value violates unique constraint users_username_key DETAIL: Key (username)=(carol) already exists.'')\<rparr>"

text \<open>A table with a row whose email was stored without an at sign.\<close>

definition legacy_row :: UserModel where
  "legacy_row =
     \<lparr> model_id = ''u9'', model_email = ''dave.x.com'', model_username = ''dave'',
       model_hashed_password = ''hash:secret9'', model_is_active = True,
       model_created_at = 50, model_updated_at = 50 \<rparr>"

definition legacy_session :: AsyncSession where
  "legacy_session =
     healthy_session\<lparr>db_rows := users_table @ [legacy_row], rows := users_table @ [legacy_row]\<rparr>"

section \<open>Lookups on the example table\<close>

lemma get_by_id_alice: "get_by_id plain_objects healthy_session ''u1'' = Inr (Some alice)"
  by (simp add: get_by_id_def entity_or_none_def execute_select_def healthy_session_def
      users_table_def entity_to_model_def model_to_entity_def plain_objects_def alice_def bob_def)




section \<open>The optional resolver\<close>

lemma lower_bearer: "lower ''Bearer'' = ''bearer''" "lower ''Basic'' = ''basic''"
  by (simp_all add: lower_def lower_char_def)

text \<open>
  The function itself lets no \<open>Exception\<close> out: it returns, or it passes on what is
  not an \<open>Exception\<close>.
\<close>

lemma get_current_user_optional_body:
  "(\<exists>r. get_current_user_optional jwt ops s creds = Inr r) \<or>
   (\<exists>e. get_current_user_optional jwt ops s creds = Inl e \<and> \<not> is_Exception e)"
  by (auto simp add: get_current_user_optional_def split: option.splits sum.splits)

lemma get_current_user_optional_none:
  "get_current_user_optional jwt ops s None = Inr None"
  by (simp add: get_current_user_optional_def)

lemma optional_dependency_bearer:
  "optional_user_dependency demo_jwt plain_objects healthy_session (Some ''Bearer token-u1'')
     = Inr (Some alice)"
  by (simp add: optional_user_dependency_def HTTPBearer_call_def security_def
      get_authorization_scheme_param_def lower_bearer get_current_user_optional_def
      optional_try_def demo_jwt_def get_by_id_alice alice_def)

text \<open>
  C1, at the input where the code departs from it: a request without the header
  \<open>Authorization\<close>, and one with another scheme than bearer, are ended with 403 by
  \<open>security\<close> before \<open>get_current_user_optional\<close> runs, so its branch for absent
  credentials, which would return \<open>None\<close>, is never reached from a request.
\<close>

theorem optional_dependency_missing_header:
  "optional_user_dependency demo_jwt plain_objects healthy_session None
     = Inl (HTTPException 403 ''Not authenticated'' [])
   \<and> optional_user_dependency demo_jwt plain_objects healthy_session (Some ''Basic abc'')
     = Inl (HTTPException 403 ''Invalid authentication credentials'' [])"
  by (simp add: optional_user_dependency_def HTTPBearer_call_def security_def
      get_authorization_scheme_param_def lower_bearer)

section \<open>The required resolver\<close>




section \<open>The active-user dependency\<close>

text \<open>
  C10. Every user that \<open>get_current_user\<close> returns is active, so
  \<open>get_current_active_user\<close> returns that user and never takes its branch
  \<open>Inactive user\<close>: the chained dependency gives exactly what \<open>get_current_user\<close>
  gives.
\<close>

theorem current_user_is_active:
  "(\<forall>u. get_current_user jwt ops s creds = Inr u \<longrightarrow>
        is_active u \<and> get_current_active_user u = Inr u) \<and>
   current_active_user_dependency jwt ops s creds = get_current_user jwt ops s creds"
  by (auto simp add: get_current_user_def get_current_active_user_def
      current_active_user_dependency_def split: option.splits sum.splits if_splits)

theorem current_user_is_active_witness:
  "get_current_user demo_jwt plain_objects healthy_session (bearer ''token-u1'') = Inr alice
   \<and> is_active alice \<and> get_current_active_user alice = Inr alice"
proof -
  have a: "get_current_user demo_jwt plain_objects healthy_session (bearer ''token-u1'')
             = Inr alice"
    by (simp add: get_current_user_def bearer_def demo_jwt_def get_by_id_alice alice_def)
  show ?thesis
    using a current_user_is_active
        [of demo_jwt plain_objects healthy_session "bearer ''token-u1''"]
    by simp
qed

section \<open>The view of the current user\<close>

text \<open>
  C7. The response of \<open>/me\<close> is built from the id, email, username, active flag and the
  two timestamps only: two users that agree on these six attributes, whatever their
  password hashes, get the same response.
\<close>

theorem user_info_without_password:
  assumes "user_id u = user_id v" and "email u = email v" and "username u = username v"
    and "is_active u = is_active v" and "created_at u = created_at v"
    and "updated_at u = updated_at v"
  shows "get_current_user_info ops u = get_current_user_info ops v"
  using assms by (simp add: get_current_user_info_def)

theorem user_info_without_password_witness:
  "hashed_password (alice\<lparr>hashed_password := ''other''\<rparr>) \<noteq> hashed_password alice
   \<and> get_current_user_info plain_objects (alice\<lparr>hashed_password := ''other''\<rparr>)
       = get_current_user_info plain_objects alice"
  using user_info_without_password
      [of "alice\<lparr>hashed_password := ''other''\<rparr>" alice plain_objects]
  by (simp add: alice_def)

section \<open>Round trip between entity and model\<close>



lemma Email_init_example:
  "map_sum (\<lambda>e. e) Rep_Email (Email_init ''Alice@X.com'') = Inr ''alice@x.com''"
proof -
  have l: "lower ''Alice@X.com'' = ''alice@x.com''"
    and i: "lower ''alice@x.com'' = ''alice@x.com''"
    by (simp_all add: lower_def lower_char_def)
  have "Rep_Email (Abs_Email ''alice@x.com'') = ''alice@x.com''"
    by (rule Abs_Email_inverse) (simp add: i)
  then show ?thesis by (simp add: Email_init_def l)
qed


section \<open>Queries on the users table\<close>

lemma scalar_one_or_none_Some: "scalar_one_or_none xs = Inr (Some x) \<longleftrightarrow> xs = [x]"
  by (cases xs rule: scalar_one_or_none.cases) simp_all

lemma scalar_one_or_none_None: "scalar_one_or_none xs = Inr None \<longleftrightarrow> xs = []"
  by (cases xs rule: scalar_one_or_none.cases) simp_all

lemma entity_or_none_Some:
  "entity_or_none ops (execute_select s p) = Inr (Some u) \<longleftrightarrow>
     execute_exc s = None \<and> (\<exists>m. filter p (rows s) = [m] \<and> model_to_entity ops m = Inr u)"
  by (auto simp add: entity_or_none_def execute_select_def scalar_one_or_none_Some
      split: option.splits sum.splits)

lemma entity_or_none_None:
  "entity_or_none ops (execute_select s p) = Inr None \<longleftrightarrow>
     execute_exc s = None \<and> filter p (rows s) = []"
  by (auto simp add: entity_or_none_def execute_select_def scalar_one_or_none_None
      split: option.splits sum.splits)

lemma id_is_not_none_True:
  "id_is_not_none (execute_select s p) = Inr True \<longleftrightarrow>
     execute_exc s = None \<and> (\<exists>m. filter p (rows s) = [m])"
  by (auto simp add: id_is_not_none_def execute_select_def scalar_one_or_none_Some
      scalar_one_or_none_None map_eq_Cons_conv split: option.splits sum.splits)

lemma filter_single_mem: "filter p xs = [m] \<Longrightarrow> m \<in> set xs"
proof -
  assume "filter p xs = [m]"
  then have "m \<in> set (filter p xs)" by simp
  then show "m \<in> set xs" by simp
qed

text \<open>
  C5, as the claim states it, fails: in a table with a row whose stored email the
  constructor of \<open>Email\<close> rejects, \<open>exists_by_username\<close> returns true for that row's
  username, since it reads the id only, while \<open>get_by_username\<close> raises instead of
  returning the user.
\<close>

theorem finders_and_exists_counterexample:
  "exists_by_username legacy_session ''dave'' = Inr True
   \<and> get_by_username domain_objects legacy_session ''dave''
       = Inl (ValueError ''Invalid email format'')"
  by (simp add: exists_by_username_def id_is_not_none_def get_by_username_def
      entity_or_none_def execute_select_def legacy_session_def healthy_session_def
      users_table_def entity_to_model_def plain_objects_def alice_def bob_def legacy_row_def
      model_to_entity_def domain_objects_def Email_init_def lower_def lower_char_def)

text \<open>
  C5, amended. When the rows with the email \<open>e\<close> convert to entities,
  \<open>exists_by_email\<close> returns true for \<open>e\<close> exactly when \<open>get_by_email\<close> returns a
  user, and likewise for the rows with the username \<open>n\<close>. Each of the three finders
  returns a user exactly when the statement executes and the rows with the key of its
  argument are one row, which it returns converted; it returns \<open>None\<close> exactly when
  the statement executes and no row has that key.
\<close>

theorem finders_and_exists:
  assumes "\<forall>m \<in> set (rows s). model_email m = Email_str ops e \<longrightarrow>
             (\<exists>u. model_to_entity ops m = Inr u)"
    and "\<forall>m \<in> set (rows s). model_username m = n \<longrightarrow>
             (\<exists>u. model_to_entity ops m = Inr u)"
  shows "(exists_by_email ops s e = Inr True \<longleftrightarrow> (\<exists>u. get_by_email ops s e = Inr (Some u)))
    \<and> (exists_by_username s n = Inr True \<longleftrightarrow> (\<exists>u. get_by_username ops s n = Inr (Some u)))
    \<and> (\<forall>u. get_by_id ops s i = Inr (Some u) \<longleftrightarrow>
          execute_exc s = None \<and>
          (\<exists>m. filter (\<lambda>m. model_id m = UserId_str ops i) (rows s) = [m]
               \<and> model_to_entity ops m = Inr u))
    \<and> (get_by_id ops s i = Inr None \<longleftrightarrow>
          execute_exc s = None \<and> (\<forall>m \<in> set (rows s). model_id m \<noteq> UserId_str ops i))
    \<and> (\<forall>u. get_by_email ops s e = Inr (Some u) \<longleftrightarrow>
          execute_exc s = None \<and>
          (\<exists>m. filter (\<lambda>m. model_email m = Email_str ops e) (rows s) = [m]
               \<and> model_to_entity ops m = Inr u))
    \<and> (get_by_email ops s e = Inr None \<longleftrightarrow>
          execute_exc s = None \<and> (\<forall>m \<in> set (rows s). model_email m \<noteq> Email_str ops e))
    \<and> (\<forall>u. get_by_username ops s n = Inr (Some u) \<longleftrightarrow>
          execute_exc s = None \<and>
          (\<exists>m. filter (\<lambda>m. model_username m = n) (rows s) = [m]
               \<and> model_to_entity ops m = Inr u))
    \<and> (get_by_username ops s n = Inr None \<longleftrightarrow>
          execute_exc s = None \<and> (\<forall>m \<in> set (rows s). model_username m \<noteq> n))"
proof -
  have conv_e: "\<exists>u. model_to_entity ops m = Inr u"
    if "filter (\<lambda>m. model_email m = Email_str ops e) (rows s) = [m]" for m
  proof -
    have "m \<in> set (filter (\<lambda>m. model_email m = Email_str ops e) (rows s))"
      using that by simp
    then show ?thesis using assms(1) by simp
  qed
  have conv_n: "\<exists>u. model_to_entity ops m = Inr u"
    if "filter (\<lambda>m. model_username m = n) (rows s) = [m]" for m
  proof -
    have "m \<in> set (filter (\<lambda>m. model_username m = n) (rows s))"
      using that by simp
    then show ?thesis using assms(2) by simp
  qed
  have a: "exists_by_email ops s e = Inr True \<longleftrightarrow> (\<exists>u. get_by_email ops s e = Inr (Some u))"
    unfolding exists_by_email_def get_by_email_def id_is_not_none_True entity_or_none_Some
    using conv_e by blast
  have b: "exists_by_username s n = Inr True \<longleftrightarrow> (\<exists>u. get_by_username ops s n = Inr (Some u))"
    unfolding exists_by_username_def get_by_username_def id_is_not_none_True entity_or_none_Some
    using conv_n by blast
  show ?thesis
    using a b
    by (simp add: get_by_id_def get_by_email_def get_by_username_def
        entity_or_none_Some entity_or_none_None filter_empty_conv)
qed

theorem finders_and_exists_witness:
  "rows healthy_session = [entity_to_model plain_objects alice, entity_to_model plain_objects bob]
   \<and> model_to_entity plain_objects (entity_to_model plain_objects alice) = Inr alice
   \<and> model_to_entity plain_objects (entity_to_model plain_objects bob) = Inr bob
   \<and> get_by_email plain_objects healthy_session ''a@x.com'' = Inr (Some alice)
   \<and> exists_by_email plain_objects healthy_session ''a@x.com'' = Inr True
   \<and> get_by_email plain_objects healthy_session ''z@x.com'' = Inr None
   \<and> exists_by_email plain_objects healthy_session ''z@x.com'' \<noteq> Inr True"
proof -
  have conv: "\<exists>u. model_to_entity plain_objects m = Inr u" for m
    by (simp add: model_to_entity_def plain_objects_def)
  have h1: "\<forall>m \<in> set (rows healthy_session).
              model_email m = Email_str plain_objects em \<longrightarrow>
              (\<exists>u. model_to_entity plain_objects m = Inr u)" for em
    using conv by blast
  have h2: "\<forall>m \<in> set (rows healthy_session).
              model_username m = ''alice'' \<longrightarrow>
              (\<exists>u. model_to_entity plain_objects m = Inr u)"
    using conv by blast
  have f: "filter (\<lambda>m. model_email m = Email_str plain_objects ''a@x.com'') (rows healthy_session)
             = [entity_to_model plain_objects alice]"
    by (simp add: healthy_session_def users_table_def entity_to_model_def plain_objects_def
        alice_def bob_def)
  have c: "model_to_entity plain_objects (entity_to_model plain_objects alice) = Inr alice"
    by (simp add: model_to_entity_def entity_to_model_def plain_objects_def)
  have e: "execute_exc healthy_session = None" by (simp add: healthy_session_def)
  have n: "\<forall>m \<in> set (rows healthy_session). model_email m \<noteq> Email_str plain_objects ''z@x.com''"
    by (simp add: healthy_session_def users_table_def entity_to_model_def plain_objects_def
        alice_def bob_def)
  note thm1 = finders_and_exists [OF h1 h2, of "''a@x.com''" "''u1''"]
  note thm2 = finders_and_exists [OF h1 h2, of "''z@x.com''" "''u1''"]
  have g1: "get_by_email plain_objects healthy_session ''a@x.com'' = Inr (Some alice)"
    using thm1 f c e by simp
  have g2: "get_by_email plain_objects healthy_session ''z@x.com'' = Inr None"
    using thm2 n e by simp
  have x1: "exists_by_email plain_objects healthy_session ''a@x.com'' = Inr True"
    using thm1 g1 by simp
  have x2: "exists_by_email plain_objects healthy_session ''z@x.com'' \<noteq> Inr True"
    using thm2 g2 by simp
  have r: "rows healthy_session
             = [entity_to_model plain_objects alice, entity_to_model plain_objects bob]"
    by (simp add: healthy_session_def users_table_def)
  have cb: "model_to_entity plain_objects (entity_to_model plain_objects bob) = Inr bob"
    by (simp add: model_to_entity_def entity_to_model_def plain_objects_def)
  show ?thesis using r c cb g1 g2 x1 x2 by simp
qed

section \<open>The frame of update\<close>

text \<open>
  C6. \<open>update\<close> leaves the committed rows, the number of rows, and the id and
  \<open>created_at\<close> of every row as they are; a row with another id than the user's is
  unchanged; a row with the user's id gets the user's email, username, password hash,
  active flag and \<open>updated_at\<close>, and nothing else.
\<close>

theorem update_frame:
  "db_rows (fst (update ops s u)) = db_rows s \<and>
   length (rows (fst (update ops s u))) = length (rows s) \<and>
   (\<forall>i < length (rows s).
      model_id (rows (fst (update ops s u)) ! i) = model_id (rows s ! i) \<and>
      model_created_at (rows (fst (update ops s u)) ! i) = model_created_at (rows s ! i) \<and>
      (model_id (rows s ! i) \<noteq> UserId_str ops (user_id u) \<longrightarrow>
         rows (fst (update ops s u)) ! i = rows s ! i) \<and>
      (model_id (rows s ! i) = UserId_str ops (user_id u) \<and> execute_exc s = None \<longrightarrow>
         rows (fst (update ops s u)) ! i =
           (rows s ! i)\<lparr> model_email := Email_str ops (email u),
                         model_username := username u,
                         model_hashed_password := hashed_password u,
                         model_is_active := is_active u,
                         model_updated_at := updated_at u \<rparr>))"
  by (cases "execute_exc s") (simp_all add: update_def update_values_def Let_def)

theorem update_frame_witness:
  "rows (fst (update plain_objects healthy_session (bob\<lparr>username := ''robert''\<rparr>)))
     = [entity_to_model plain_objects alice,
        entity_to_model plain_objects (bob\<lparr>username := ''robert''\<rparr>)]"
proof -
  have l: "length (rows healthy_session) = 2"
    by (simp add: healthy_session_def users_table_def)
  have r0: "rows healthy_session ! 0 = entity_to_model plain_objects alice"
    and r1: "rows healthy_session ! 1 = entity_to_model plain_objects bob"
    by (simp_all add: healthy_session_def users_table_def)
  have e: "execute_exc healthy_session = None" by (simp add: healthy_session_def)
  let ?u = "bob\<lparr>username := ''robert''\<rparr>"
  let ?rs = "rows (fst (update plain_objects healthy_session ?u))"
  have f: "length ?rs = 2"
    using update_frame [of plain_objects healthy_session ?u] l by simp
  have a: "?rs ! 0 = entity_to_model plain_objects alice"
    using update_frame [of plain_objects healthy_session ?u] l r0
    by (simp add: entity_to_model_def plain_objects_def alice_def bob_def)
  have b: "?rs ! 1 = entity_to_model plain_objects ?u"
    using update_frame [of plain_objects healthy_session ?u] l r1 e
    by (simp add: entity_to_model_def plain_objects_def alice_def bob_def)
  show ?thesis
    using f a b by (simp add: list_eq_iff_nth_eq nth_Cons' less_Suc_eq numeral_2_eq_2)
qed

section \<open>Commit, rollback and close\<close>

lemma body_ok:
  "request_of (\<lambda>s. create plain_objects s carol) healthy_session
     = (healthy_session\<lparr>rows := users_table @ [entity_to_model plain_objects carol]\<rparr>, None)"
  by (simp add: request_of_def create_def refresh_def healthy_session_def model_to_entity_def
      entity_to_model_def plain_objects_def carol_def users_table_def alice_def bob_def)

lemma body_fail:
  "request_of create_then_fail healthy_session
     = (healthy_session\<lparr>rows := users_table @ [entity_to_model plain_objects carol]\<rparr>,
        Some (HTTPException 400 ''rejected'' []))"
  by (simp add: request_of_def create_then_fail_def create_def refresh_def healthy_session_def
      model_to_entity_def entity_to_model_def plain_objects_def carol_def users_table_def
      alice_def bob_def)

lemma body_cancelled:
  "request_of create_then_cancelled healthy_session
     = (healthy_session\<lparr>rows := users_table @ [entity_to_model plain_objects carol]\<rparr>,
        Some CancelledError)"
  by (simp add: request_of_def create_then_cancelled_def create_def refresh_def
      healthy_session_def model_to_entity_def entity_to_model_def plain_objects_def carol_def
      users_table_def alice_def bob_def)

text \<open>
  C9, as the claim states it, fails: a request that has inserted a row and is then
  cancelled raises \<open>CancelledError\<close>, which is no \<open>Exception\<close>; \<open>get_session\<close>
  passes it on and closes the session twice, but does not roll it back.
\<close>

theorem get_session_counterexample:
  "snd (request_of create_then_cancelled healthy_session) = Some CancelledError
   \<and> snd (get_session healthy_session (request_of create_then_cancelled)) = Some CancelledError
   \<and> calls (fst (get_session healthy_session (request_of create_then_cancelled)))
       = [Close, Close]"
proof -
  have a: "snd (request_of create_then_cancelled healthy_session) = Some CancelledError"
    by (simp add: body_cancelled)
  have g: "get_session healthy_session (request_of create_then_cancelled)
      = close_in_flight (close_in_flight (try_commit
          (healthy_session\<lparr>rows := users_table @ [entity_to_model plain_objects carol],
             db_rows := db_rows healthy_session, calls := calls healthy_session\<rparr>)
          (Some CancelledError)))"
    by (simp add: get_session_def body_cancelled)
  have b: "snd (get_session healthy_session (request_of create_then_cancelled))
             = Some CancelledError"
    and c: "calls (fst (get_session healthy_session (request_of create_then_cancelled)))
             = [Close, Close]"
    unfolding g
    by (simp_all add: try_commit_def except_rollback_def close_in_flight_def close_def
        healthy_session_def)
  show ?thesis using a b c by simp
qed

text \<open>
  C9, amended. For every request body on a session of \<open>get_session\<close>, with closes
  that succeed: if the body returns and the commit goes through, the rows of the
  transaction are committed; if the body or the commit raises an \<open>Exception\<close>, the
  session is rolled back, and when the rollback succeeds the same exception leaves
  \<open>get_session\<close>, otherwise the exception of the rollback does; an exception of the
  body that is no \<open>Exception\<close> leaves \<open>get_session\<close> without a rollback. Whenever
  the body raises, an exception leaves \<open>get_session\<close> and the committed rows are
  those from before the request. In every case the session is closed by the
  \<open>finally\<close> clause and again by the exit of \<open>async with\<close>.
\<close>

theorem get_session_outcomes:
  assumes "body s = (s1, raised)"
  shows "(raised = None \<and> commit_exc s1 = None \<and> close_exc s1 = None \<longrightarrow>
            snd (get_session s body) = None
            \<and> db_rows (fst (get_session s body)) = rows s1
            \<and> calls (fst (get_session s body)) = calls s @ [Commit, Close, Close])
       \<and> (\<forall>e. raised = Some e \<and> is_Exception e
              \<and> rollback_exc s1 = None \<and> close_exc s1 = None \<longrightarrow>
            snd (get_session s body) = Some e
            \<and> rows (fst (get_session s body)) = db_rows s
            \<and> calls (fst (get_session s body)) = calls s @ [Rollback, Close, Close])
       \<and> (\<forall>e. raised = None \<and> commit_exc s1 = Some e \<and> is_Exception e
              \<and> rollback_exc s1 = None \<and> close_exc s1 = None \<longrightarrow>
            snd (get_session s body) = Some e
            \<and> db_rows (fst (get_session s body)) = db_rows s
            \<and> rows (fst (get_session s body)) = db_rows s
            \<and> calls (fst (get_session s body)) = calls s @ [Commit, Rollback, Close, Close])
       \<and> (\<forall>e e'. raised = Some e \<and> is_Exception e
              \<and> rollback_exc s1 = Some e' \<and> close_exc s1 = None \<longrightarrow>
            snd (get_session s body) = Some e'
            \<and> calls (fst (get_session s body)) = calls s @ [Rollback, Close, Close])
       \<and> (\<forall>e. raised = Some e \<and> \<not> is_Exception e \<and> close_exc s1 = None \<longrightarrow>
            snd (get_session s body) = Some e
            \<and> rows (fst (get_session s body)) = db_rows s
            \<and> calls (fst (get_session s body)) = calls s @ [Close, Close])
       \<and> (raised \<noteq> None \<longrightarrow>
            snd (get_session s body) \<noteq> None
            \<and> db_rows (fst (get_session s body)) = db_rows s)
       \<and> (\<exists>cs. calls (fst (get_session s body)) = calls s @ cs @ [Close, Close])"
proof -
  let ?s0 = "s1\<lparr>db_rows := db_rows s, calls := calls s\<rparr>"
  have g: "get_session s body = close_in_flight (close_in_flight (try_commit ?s0 raised))"
    using assms by (simp add: get_session_def)
  show ?thesis
    unfolding g
    by (cases raised; cases "commit_exc s1"; cases "rollback_exc s1"; cases "close_exc s1")
       (auto simp add: try_commit_def except_rollback_def close_in_flight_def
          commit_def rollback_def close_def)
qed

theorem get_session_outcomes_witness:
  "db_rows (fst (get_session healthy_session (request_of (\<lambda>s. create plain_objects s carol))))
     = users_table @ [entity_to_model plain_objects carol]
   \<and> snd (get_session healthy_session (request_of (\<lambda>s. create plain_objects s carol))) = None
   \<and> calls (fst (get_session healthy_session (request_of (\<lambda>s. create plain_objects s carol))))
       = [Commit, Close, Close]
   \<and> db_rows (fst (get_session healthy_session (request_of create_then_fail))) = users_table
   \<and> snd (get_session healthy_session (request_of create_then_fail))
       = Some (HTTPException 400 ''rejected'' [])
   \<and> calls (fst (get_session healthy_session (request_of create_then_fail)))
       = [Rollback, Close, Close]"
  using body_ok body_fail
    get_session_outcomes
      [of "request_of (\<lambda>s. create plain_objects s carol)" healthy_session
          "healthy_session\<lparr>rows := users_table @ [entity_to_model plain_objects carol]\<rparr>" None]
    get_session_outcomes
      [of "request_of create_then_fail" healthy_session
          "healthy_session\<lparr>rows := users_table @ [entity_to_model plain_objects carol]\<rparr>"
          "Some (HTTPException 400 ''rejected'' [])"]
  by (simp add: healthy_session_def)

section \<open>Write failures at registration\<close>

lemma str_contains_append: "str_contains needle ys \<Longrightarrow> str_contains needle (xs @ ys)"
  by (induction xs) simp_all

lemma statement_contains_email:
  "str_contains ''email'' ('' [SQL: '' @ insert_statement @ '']'')"
  by (simp add: insert_statement_def)

text \<open>
  Whatever the driver says, the text of an \<open>IntegrityError\<close> of the flush contains
  \<open>email\<close>, because the INSERT statement in it lists the column: \<open>create\<close> answers
  every uniqueness violation with the error for the email and never reaches its test
  for \<open>username\<close>.
\<close>

lemma create_integrity_error:
  assumes "flush_exc s = Some (integrity_error driver_message)"
  shows "snd (create ops s u) = Inl (email_exists ops u)"
proof -
  have "str_contains ''email'' (driver_message @ '' [SQL: '' @ insert_statement @ '']'')"
    using statement_contains_email by (rule str_contains_append)
  then show ?thesis
    using assms by (simp add: create_def create_except_def integrity_error_def)
qed

lemma create_invalidates:
  "flush_exc s = Some e \<Longrightarrow> commit_exc (fst (create ops s u)) = Some PendingRollbackError"
  by (simp add: create_def invalidate_def)

lemma sign_up_value_error:
  "register_user d = Inl (ValueError msg) \<Longrightarrow> sign_up register_user d = Inl (HTTPException 400 msg [])"
  by (simp add: sign_up_def)

lemma sign_up_other_exception:
  "register_user d = Inl e \<Longrightarrow> is_Exception e \<Longrightarrow> \<forall>msg. e \<noteq> ValueError msg \<Longrightarrow>
     sign_up register_user d
       = Inl (HTTPException 500 ''Internal server error during registration'' [])"
  by (cases e) (simp_all add: sign_up_def)

text \<open>
  C2, at the input where the code departs from it: the flush of \<open>create\<close> is refused
  because carol's username has been taken since the pre-check, and \<open>create\<close> raises
  the error that names the email.
\<close>

theorem create_username_collision:
  "snd (create plain_objects username_taken_session carol)
     = Inl (ValueError ''User with email c@x.com already exists'')"
proof -
  have "flush_exc username_taken_session = Some (integrity_error
      ''duplicate key value violates unique constraint users_username_key DETAIL: Key (username)=(carol) already exists.'')"
    by (simp add: username_taken_session_def)
  then have "snd (create plain_objects username_taken_session carol)
      = Inl (email_exists plain_objects carol)"
    by (rule create_integrity_error)
  then show ?thesis
    by (simp add: email_exists_def plain_objects_def carol_def)
qed

section \<open>Login failures\<close>

text \<open>
  C4. A login whose identifier finds no user, finds an inactive user, or finds a user
  whose password does not verify is answered in all three cases with the same error:
  status 401 with the one detail of \<open>InvalidCredentials\<close>.
\<close>

theorem login_failures_identical:
  assumes "lookup (login_identifier d) = Inr None
      \<or> (\<exists>u. lookup (login_identifier d) = Inr (Some u)
            \<and> (\<not> is_active u
                 \<or> \<not> verify_password svc (login_password d) (hashed_password u)))"
  shows "login (login_user ops svc lookup) d
           = Inl (HTTPException 401 ''Invalid credentials'' [])"
  using assms by (auto simp add: login_def login_user_def InvalidCredentials_def)

lemma by_username:
  "get_by_username plain_objects healthy_session ''alice'' = Inr (Some alice)"
  "get_by_username plain_objects healthy_session ''bob'' = Inr (Some bob)"
  "get_by_username plain_objects healthy_session ''nobody'' = Inr None"
  by (simp_all add: get_by_username_def entity_or_none_def execute_select_def
      healthy_session_def users_table_def entity_to_model_def model_to_entity_def
      plain_objects_def alice_def bob_def)

theorem login_failures_identical_witness:
  "login (login_user plain_objects demo_services (get_by_username plain_objects healthy_session))
     \<lparr> login_identifier = ''nobody'', login_password = ''secret1'' \<rparr>
     = Inl (HTTPException 401 ''Invalid credentials'' [])
   \<and> login (login_user plain_objects demo_services (get_by_username plain_objects healthy_session))
     \<lparr> login_identifier = ''bob'', login_password = ''secret2'' \<rparr>
     = Inl (HTTPException 401 ''Invalid credentials'' [])
   \<and> login (login_user plain_objects demo_services (get_by_username plain_objects healthy_session))
     \<lparr> login_identifier = ''alice'', login_password = ''wrong'' \<rparr>
     = Inl (HTTPException 401 ''Invalid credentials'' [])
   \<and> (\<exists>r. login (login_user plain_objects demo_services
                  (get_by_username plain_objects healthy_session))
            \<lparr> login_identifier = ''alice'', login_password = ''secret1'' \<rparr> = Inr r)"
proof -
  let ?lookup = "get_by_username plain_objects healthy_session"
  have a: "verify_password demo_services ''secret2'' (hashed_password bob)"
    and b: "\<not> is_active bob"
    and c: "\<not> verify_password demo_services ''wrong'' (hashed_password alice)"
    and d: "is_active alice"
    and e: "verify_password demo_services ''secret1'' (hashed_password alice)"
    by (simp_all add: demo_services_def alice_def bob_def)
  have 1: "login (login_user plain_objects demo_services ?lookup)
             \<lparr> login_identifier = ''nobody'', login_password = ''secret1'' \<rparr>
           = Inl (HTTPException 401 ''Invalid credentials'' [])"
    using login_failures_identical
        [of ?lookup "\<lparr> login_identifier = ''nobody'', login_password = ''secret1'' \<rparr>"
            demo_services plain_objects]
      by_username by simp
  have 2: "login (login_user plain_objects demo_services ?lookup)
             \<lparr> login_identifier = ''bob'', login_password = ''secret2'' \<rparr>
           = Inl (HTTPException 401 ''Invalid credentials'' [])"
    using login_failures_identical
        [of ?lookup "\<lparr> login_identifier = ''bob'', login_password = ''secret2'' \<rparr>"
            demo_services plain_objects]
      by_username b by simp
  have 3: "login (login_user plain_objects demo_services ?lookup)
             \<lparr> login_identifier = ''alice'', login_password = ''wrong'' \<rparr>
           = Inl (HTTPException 401 ''Invalid credentials'' [])"
    using login_failures_identical
        [of ?lookup "\<lparr> login_identifier = ''alice'', login_password = ''wrong'' \<rparr>"
            demo_services plain_objects]
      by_username c by simp
  have 4: "\<exists>r. login (login_user plain_objects demo_services ?lookup)
             \<lparr> login_identifier = ''alice'', login_password = ''secret1'' \<rparr> = Inr r"
    using by_username d e by (simp add: login_def login_user_def)
  show ?thesis using 1 2 3 4 by simp
qed

end
